theory Spec2Isabelle
  imports Complex_Main
begin

section \<open>JavaScript values, errors and strings\<close>

text \<open>
  The AI pipeline of the auditor (provider selection, prompt lookup, the two provider
  calls and the result record) is embedded as HOL functions. A thrown JavaScript value
  is an \<open>Inl\<close> result; the class of the error and its \<open>message\<close> property are kept,
  because the retry policy inspects the message. The message is optional: the source
  reads it with \<open>error.message?.includes(...)\<close>, so a thrown value without one is allowed.
\<close>

datatype error_class = Error | SyntaxError | TypeError | APIError

datatype js_error = Thrown error_class "string option"

fun message :: "js_error \<Rightarrow> string option" where
  "message (Thrown c m) = m"

text \<open>
  \<open>String.prototype.startsWith\<close> and \<open>String.prototype.includes\<close> for the
  ASCII search strings of the source.
\<close>

definition startsWith :: "string \<Rightarrow> string \<Rightarrow> bool" where
  "startsWith s p = (take (length p) s = p)"

fun includes_str :: "string \<Rightarrow> string \<Rightarrow> bool" where
  "includes_str [] p = (p = [])"
| "includes_str (c # cs) p = (startsWith (c # cs) p \<or> includes_str cs p)"

section \<open>Provider selection: \<open>initializeAIProvider\<close>\<close>

text \<open>
  \<open>new OpenAI({apiKey, baseURL, defaultHeaders})\<close> and \<open>new GoogleGenerativeAI(apiKey)\<close>
  only store their configuration, so a client is the configuration it was built from.
  The handle is the object literal the function returns; the Gemini literal has no
  \<open>model\<close> property, hence the optional field. The lines written to the console are
  left out.
\<close>

datatype client =
  OpenAI string "string option" "(string \<times> string) list"
| GoogleGenerativeAI string

record provider =
  type :: string
  client :: client
  model :: "string option"

definition api_key_required :: string where
  "api_key_required =
     ''API Key is required. Please provide your OpenAI, OpenRouter, or Gemini API key.''"

definition invalid_api_key_format :: string where
  "invalid_api_key_format =
     ''Invalid API key format. Please provide a valid OpenAI (sk-...), OpenRouter (sk-or-...), or Gemini (AIza...) API key.''"

text \<open>
  The argument is \<open>None\<close> for an absent (\<open>undefined\<close>) key; \<open>!apiKey\<close> is also true of
  the empty string.
\<close>

definition initializeAIProvider :: "string option \<Rightarrow> js_error + provider" where
  "initializeAIProvider apiKey =
     (case apiKey of
        None \<Rightarrow> Inl (Thrown Error (Some api_key_required))
      | Some k \<Rightarrow>
          if k = [] then Inl (Thrown Error (Some api_key_required))
          else if startsWith k ''sk-or-'' then
            Inr \<lparr>type = ''openrouter'',
                 client = OpenAI k (Some ''https://openrouter.ai/api/v1'')
                            [(''HTTP-Referer'', ''https://apify.com/''),
                             (''X-Title'', ''Apify UI/UX Auditor'')],
                 model = Some ''openai/gpt-4o-mini''\<rparr>
          else if startsWith k ''sk-'' then
            Inr \<lparr>type = ''openai'', client = OpenAI k None [], model = Some ''gpt-4o''\<rparr>
          else if startsWith k ''AIza'' then
            Inr \<lparr>type = ''gemini'', client = GoogleGenerativeAI k, model = None\<rparr>
          else Inl (Thrown Error (Some invalid_api_key_format)))"

section \<open>JSON values and the \<open>||\<close> operator\<close>

text \<open>
  What \<open>JSON.parse\<close> returns, and what the object literals of the request handler hold.
  Numbers are rationals (a JSON number literal is a decimal, and the only falsy
  numbers it can denote are 0 and -0, both \<open>JNum 0\<close> here); an object is the list of
  its own properties. \<open>JUndefined\<close> is the result of reading a property that is not
  there.
\<close>

datatype js =
  JUndefined
| JNull
| JBool bool
| JNum rat
| JStr string
| JArr "js list"
| JObj "(string \<times> js) list"

fun truthy :: "js \<Rightarrow> bool" where
  "truthy JUndefined = False"
| "truthy JNull = False"
| "truthy (JBool b) = b"
| "truthy (JNum n) = (n \<noteq> 0)"
| "truthy (JStr s) = (s \<noteq> [])"
| "truthy (JArr xs) = True"
| "truthy (JObj kvs) = True"

definition js_or :: "js \<Rightarrow> js \<Rightarrow> js" where
  "js_or a b = (if truthy a then a else b)"

text \<open>
  Reading an own property of an object literal built by this program
  (\<open>performance.performance_score\<close>).
\<close>

definition own :: "(string \<times> js) list \<Rightarrow> string \<Rightarrow> js" where
  "own kvs k = (case map_of kvs k of Some v \<Rightarrow> v | None \<Rightarrow> JUndefined)"

text \<open>
  Reading a property of a parsed response (\<open>aiResult.score\<close>): a \<open>TypeError\<close> on
  \<open>null\<close> and \<open>undefined\<close>, the own property of an object, and \<open>undefined\<close> on
  every other value. The six names read from \<open>aiResult\<close> are defined by no built-in
  prototype, so no inherited property is found for them.
\<close>

definition cannot_read :: "string \<Rightarrow> string \<Rightarrow> js_error" where
  "cannot_read what k =
     Thrown TypeError
       (Some (''Cannot read properties of '' @ what @ '' (reading '' @ [CHR 0x27] @ k @
              [CHR 0x27] @ '')''))"

fun get_field :: "js \<Rightarrow> string \<Rightarrow> js_error + js" where
  "get_field JUndefined k = Inl (cannot_read ''undefined'' k)"
| "get_field JNull k = Inl (cannot_read ''null'' k)"
| "get_field (JObj kvs) k = Inr (own kvs k)"
| "get_field v k = Inr JUndefined"

fun bind_err :: "js_error + 'a \<Rightarrow> ('a \<Rightarrow> js_error + 'b) \<Rightarrow> js_error + 'b" where
  "bind_err (Inl e) f = Inl e"
| "bind_err (Inr x) f = f x"

section \<open>Prompt lookup: \<open>ANALYSIS_PROMPTS\<close>\<close>

definition prompt_general :: string where
  "prompt_general =
     ''You are a world-class UI/UX Designer. Analyze this website screenshot and evaluate:\<newline>'' @
     ''- Overall visual aesthetics and design quality\<newline>'' @
     ''- Layout and visual hierarchy\<newline>'' @
     ''- Typography and readability\<newline>'' @
     ''- Color scheme effectiveness\<newline>'' @
     ''- User experience and usability\<newline>'' @
     ''- First impression impact\<newline>'' @
     ''\<newline>'' @
     ''Provide a comprehensive analysis.''"

definition prompt_accessibility :: string where
  "prompt_accessibility =
     ''You are a WCAG accessibility expert. Analyze this website screenshot for:\<newline>'' @
     ''- Color contrast ratios (text vs background)\<newline>'' @
     ''- Button and touch target sizes\<newline>'' @
     ''- Visual clarity for screen readers\<newline>'' @
     ''- Font sizes and readability\<newline>'' @
     ''- Accessible color combinations\<newline>'' @
     ''- Inclusive design patterns\<newline>'' @
     ''\<newline>'' @
     ''Focus on visual accessibility issues.''"

definition prompt_conversion :: string where
  "prompt_conversion =
     ''You are a Conversion Rate Optimization (CRO) expert. Analyze this website for:\<newline>'' @
     ''- Call-to-action (CTA) visibility and effectiveness\<newline>'' @
     ''- Trust signals and social proof\<newline>'' @
     ''- User friction points\<newline>'' @
     ''- Value proposition clarity\<newline>'' @
     ''- Visual persuasion elements\<newline>'' @
     ''- Conversion funnel clarity\<newline>'' @
     ''\<newline>'' @
     ''Identify barriers to conversion.''"

definition prompt_performance :: string where
  "prompt_performance =
     ''You are a web performance expert. Analyze this screenshot for visual indicators of:\<newline>'' @
     ''- Image optimization opportunities\<newline>'' @
     ''- Perceived load performance\<newline>'' @
     ''- Layout shift indicators\<newline>'' @
     ''- Above-the-fold optimization\<newline>'' @
     ''- Visual weight and bloat\<newline>'' @
     ''- Mobile performance considerations\<newline>'' @
     ''\<newline>'' @
     ''Focus on visual performance signals.''"

definition prompt_seo :: string where
  "prompt_seo =
     ''You are an SEO expert. Analyze this screenshot for visible on-page SEO elements:\<newline>'' @
     ''- Heading structure and hierarchy (H1-H6)\<newline>'' @
     ''- Content organization and scannability\<newline>'' @
     ''- Visual content structure\<newline>'' @
     ''- Keyword prominence\<newline>'' @
     ''- Meta content visibility\<newline>'' @
     ''- User engagement elements\<newline>'' @
     ''\<newline>'' @
     ''Focus on visually detectable SEO factors.''"

definition prompt_mobile_first :: string where
  "prompt_mobile_first =
     ''You are a mobile UX specialist. Analyze this screenshot for:\<newline>'' @
     ''- Mobile-first design principles\<newline>'' @
     ''- Touch-friendly interface elements\<newline>'' @
     ''- Responsive design patterns\<newline>'' @
     ''- Mobile navigation effectiveness\<newline>'' @
     ''- Thumb-friendly zones\<newline>'' @
     ''- Screen real estate usage\<newline>'' @
     ''\<newline>'' @
     ''Evaluate mobile user experience.''"

definition prompt_brand_consistency :: string where
  "prompt_brand_consistency =
     ''You are a brand identity expert. Analyze this screenshot for:\<newline>'' @
     ''- Color palette consistency and harmony\<newline>'' @
     ''- Typography hierarchy and selection\<newline>'' @
     ''- Visual brand elements\<newline>'' @
     ''- Design system consistency\<newline>'' @
     ''- Brand personality expression\<newline>'' @
     ''- Visual coherence\<newline>'' @
     ''\<newline>'' @
     ''Extract color palette and evaluate brand design.''"

definition ANALYSIS_PROMPTS :: "(string \<times> string) list" where
  "ANALYSIS_PROMPTS =
     [(''general'', prompt_general),
      (''accessibility'', prompt_accessibility),
      (''conversion'', prompt_conversion),
      (''performance'', prompt_performance),
      (''seo'', prompt_seo),
      (''mobile-first'', prompt_mobile_first),
      (''brand-consistency'', prompt_brand_consistency)]"

text \<open>
  \<open>ANALYSIS_PROMPTS\<close> is an object literal, so \<open>ANALYSIS_PROMPTS[analysisType]\<close> finds an
  own property first and then the properties every object inherits from
  \<open>Object.prototype\<close>. Those are functions (the prototype object itself for
  \<open>__proto__\<close>), all truthy; \<open>Builtin k\<close> stands for the one named \<open>k\<close>.
\<close>

datatype prompt_value = Instruction string | Builtin string

definition Object_prototype_properties :: "string list" where
  "Object_prototype_properties =
     [''constructor'', ''__defineGetter__'', ''__defineSetter__'', ''hasOwnProperty'',
      ''__lookupGetter__'', ''__lookupSetter__'', ''isPrototypeOf'',
      ''propertyIsEnumerable'', ''toString'', ''valueOf'', ''__proto__'',
      ''toLocaleString'']"

definition ANALYSIS_PROMPTS_get :: "string \<Rightarrow> prompt_value option" where
  "ANALYSIS_PROMPTS_get k =
     (case map_of ANALYSIS_PROMPTS k of
        Some s \<Rightarrow> Some (Instruction s)
      | None \<Rightarrow> if k \<in> set Object_prototype_properties then Some (Builtin k) else None)"

fun truthy_prompt :: "prompt_value \<Rightarrow> bool" where
  "truthy_prompt (Instruction s) = (s \<noteq> [])"
| "truthy_prompt (Builtin k) = True"

text \<open>\<open>const prompt = ANALYSIS_PROMPTS[analysisType] || ANALYSIS_PROMPTS.general\<close>\<close>

definition select_prompt :: "string \<Rightarrow> prompt_value" where
  "select_prompt analysisType =
     (case ANALYSIS_PROMPTS_get analysisType of
        Some v \<Rightarrow> if truthy_prompt v then v else Instruction prompt_general
      | None \<Rightarrow> Instruction prompt_general)"

definition output_schema :: string where
  \<open>output_schema =
     ''Output a strict JSON object with this exact structure:\<newline>'' @
     ''{\<newline>'' @
     ''  "score": <number 1-10>,\<newline>'' @
     ''  "summary": "<brief overall assessment>",\<newline>'' @
     ''  "color_palette": ["#hex1", "#hex2", "#hex3"],\<newline>'' @
     ''  "design_flaws": ["flaw 1", "flaw 2", ...],\<newline>'' @
     ''  "positive_aspects": ["positive 1", "positive 2", ...],\<newline>'' @
     ''  "recommendations": ["recommendation 1", "recommendation 2", ...]\<newline>'' @
     ''}''\<close>

section \<open>The provider calls\<close>

text \<open>
  A request records what the call sends. The system message of the chat-completion
  call is the prompt, a blank line and \<open>output_schema\<close>; the single prompt of the
  native call is the prompt, the line naming the audit and the URL, and
  \<open>output_schema\<close>. The prompt is kept as the value \<open>select_prompt\<close> found.
\<close>

datatype request =
  ChatCompletionsCreate string prompt_value string string string nat
| GenerateContent string prompt_value string string string

text \<open>
  The awaited call either rejects with an error or resolves; \<open>Resolves\<close> carries
  \<open>response.choices[0].message.content\<close>, respectively \<open>response.text()\<close>. An error
  thrown while the response is read is caught where a rejection is, so \<open>Rejects\<close>
  stands for it as well. The remote provider is a function from the number of
  requests made so far to the outcome of the next one. The world keeps the requests
  sent and the backoff sleeps, in milliseconds, in the order they happened.
\<close>

datatype create_outcome = Rejects js_error | Resolves string

record world =
  requests :: "request list"
  sleeps :: "nat list"

definition maxRetries :: nat where
  "maxRetries = 3"

text \<open>
  \<open>error.message?.includes('429') || error.message?.includes('rate limit')\<close>
\<close>

definition is_rate_limit :: "js_error \<Rightarrow> bool" where
  "is_rate_limit error =
     (case message error of
        None \<Rightarrow> False
      | Some m \<Rightarrow> includes_str m ''429'' \<or> includes_str m ''rate limit'')"

text \<open>The template \<open>${lastError?.message}\<close>.\<close>

definition last_error_text :: "js_error option \<Rightarrow> string" where
  "last_error_text lastError =
     (case lastError of
        None \<Rightarrow> ''undefined''
      | Some e \<Rightarrow> (case message e of None \<Rightarrow> ''undefined'' | Some m \<Rightarrow> m))"

text \<open>
  The body of the \<open>try\<close> block (the awaited call, then \<open>JSON.parse\<close> of the content)
  and the \<open>for\<close> loop of \<open>analyzeWithOpenAI\<close> from \<open>attempt\<close> on. \<open>JSON.parse\<close>
  belongs to the runtime and is a parameter; it is called inside the \<open>try\<close> block, so
  what it throws reaches the same \<open>catch\<close> as a rejected call. \<open>${maxRetries}\<close> prints
  as 3.
\<close>

definition try_block ::
  "(nat \<Rightarrow> create_outcome) \<Rightarrow> (string \<Rightarrow> js_error + js) \<Rightarrow> world \<Rightarrow> js_error + js" where
  "try_block api JSON_parse w =
     (case api (length (requests w)) of
        Rejects e \<Rightarrow> Inl e
      | Resolves content \<Rightarrow> JSON_parse content)"

function attempt_loop ::
  "(nat \<Rightarrow> create_outcome) \<Rightarrow> (string \<Rightarrow> js_error + js) \<Rightarrow> request \<Rightarrow> nat \<Rightarrow>
   js_error option \<Rightarrow> world \<Rightarrow> (js_error + js) \<times> world" where
  "attempt_loop api JSON_parse req attempt lastError w =
     (if attempt \<le> maxRetries then
        (case try_block api JSON_parse w of
           Inr v \<Rightarrow> (Inr v, w\<lparr>requests := requests w @ [req]\<rparr>)
         | Inl error \<Rightarrow>
             if is_rate_limit error then
               attempt_loop api JSON_parse req (attempt + 1) (Some error)
                 (w\<lparr>requests := requests w @ [req],
                    sleeps := sleeps w @ [2 ^ attempt * 1000]\<rparr>)
             else (Inl error, w\<lparr>requests := requests w @ [req]\<rparr>))
      else
        (Inl (Thrown Error
                (Some (''API failed after 3 attempts. Last error: '' @
                       last_error_text lastError))), w))"
  by pat_completeness auto
termination
  by (relation "measure (\<lambda>(api, JSON_parse, req, attempt, lastError, w).
                           Suc maxRetries - attempt)") auto

declare attempt_loop.simps [simp del]

definition chat_request :: "string \<Rightarrow> string \<Rightarrow> string \<Rightarrow> string \<Rightarrow> request" where
  "chat_request screenshotBase64 analysisType url model_id =
     ChatCompletionsCreate model_id (select_prompt analysisType) output_schema
       (''Analyze this '' @ analysisType @ '' audit for: '' @ url)
       (''data:image/png;base64,'' @ screenshotBase64) 1500"

text \<open>The \<open>model\<close> argument is optional and defaults to \<open>gpt-4o\<close>.\<close>

definition analyzeWithOpenAI ::
  "(nat \<Rightarrow> create_outcome) \<Rightarrow> (string \<Rightarrow> js_error + js) \<Rightarrow> string \<Rightarrow> string \<Rightarrow> string \<Rightarrow>
   string option \<Rightarrow> world \<Rightarrow> (js_error + js) \<times> world" where
  "analyzeWithOpenAI api JSON_parse screenshotBase64 analysisType url model_id w =
     attempt_loop api JSON_parse
       (chat_request screenshotBase64 analysisType url
          (case model_id of None \<Rightarrow> ''gpt-4o'' | Some m \<Rightarrow> m))
       1 None w"

definition gemini_request :: "string \<Rightarrow> string \<Rightarrow> string \<Rightarrow> request" where
  "gemini_request screenshotBase64 analysisType url =
     GenerateContent ''gemini-1.5-flash-latest'' (select_prompt analysisType)
       (''Analyze this '' @ analysisType @ '' audit for: '' @ url) output_schema
       screenshotBase64"

definition analyzeWithGemini ::
  "(nat \<Rightarrow> create_outcome) \<Rightarrow> (string \<Rightarrow> js_error + js) \<Rightarrow> string \<Rightarrow> string \<Rightarrow> string \<Rightarrow>
   world \<Rightarrow> (js_error + js) \<times> world" where
  "analyzeWithGemini api JSON_parse screenshotBase64 analysisType url w =
     (case api (length (requests w)) of
        Rejects e \<Rightarrow>
          (Inl e, w\<lparr>requests := requests w @ [gemini_request screenshotBase64 analysisType url]\<rparr>)
      | Resolves text \<Rightarrow>
          (JSON_parse text,
           w\<lparr>requests := requests w @ [gemini_request screenshotBase64 analysisType url]\<rparr>))"

section \<open>The result record: \<open>auditResult\<close>\<close>

text \<open>
  The free-tier counter of the earlier request handler.
\<close>

record usageTracker =
  count :: nat
  limit :: nat

definition getRemaining :: "usageTracker \<Rightarrow> nat" where
  "getRemaining t = nat (max 0 (int (limit t) - int (count t)))"

text \<open>
  The object literal \<open>auditResult\<close> of the request handler that stores the analysis
  under the provider's own key names. Property values are evaluated in order, so the
  first failing read of \<open>aiResult\<close> decides the error. The date is
  \<open>new Date().toISOString()\<close>, taken as an argument.
\<close>

definition auditResult_part_003 ::
  "string \<Rightarrow> string \<Rightarrow> string \<Rightarrow> string \<Rightarrow> string \<Rightarrow> js \<Rightarrow> string \<Rightarrow> bool \<Rightarrow> usageTracker \<Rightarrow>
   js_error + (string \<times> js) list" where
  "auditResult_part_003 url audit_date analysisType viewPort ai_provider aiResult
     screenshotUrl isFreeMode tracker =
     bind_err (get_field aiResult ''score'') (\<lambda>score.
     bind_err (get_field aiResult ''summary'') (\<lambda>summary.
     bind_err (get_field aiResult ''color_palette'') (\<lambda>color_palette.
     bind_err (get_field aiResult ''design_flaws'') (\<lambda>design_flaws.
     bind_err (get_field aiResult ''positive_aspects'') (\<lambda>positive_aspects.
     bind_err (get_field aiResult ''recommendations'') (\<lambda>recommendations.
       Inr [(''url'', JStr url),
            (''audit_date'', JStr audit_date),
            (''analysis_type'', JStr analysisType),
            (''viewport'', JStr viewPort),
            (''ai_provider'', JStr ai_provider),
            (''score'', js_or score (JNum 0)),
            (''summary'', js_or summary (JStr ''No summary available'')),
            (''color_palette'', js_or color_palette (JArr [])),
            (''design_flaws'', js_or design_flaws (JArr [])),
            (''positive_aspects'', js_or positive_aspects (JArr [])),
            (''recommendations'', js_or recommendations (JArr [])),
            (''screenshot_url'', JStr screenshotUrl),
            (''free_tier_remaining'',
               if isFreeMode then JNum (of_nat (getRemaining tracker)) else JNull)]))))))"

text \<open>
  The request handler with the heuristic analyses builds two object literals, first
  \<open>flattenedResult\<close> and then \<open>auditResult\<close>. The seven analysis objects are the object
  literals their functions return; their list fields are arrays of strings that the
  functions fill, so reading and joining them does not throw, and their part of
  \<open>flattenedResult\<close> is left out. The properties of \<open>flattenedResult\<close> that are
  computed from \<open>aiResult\<close> are evaluated here in the order of the literal, because
  they can throw: \<open>(aiResult.color_palette || []).join(', ')\<close> and the three joins after
  it call \<open>join\<close> on a value that is either truthy or the empty array. An array has
  \<open>join\<close>; a string, a number, \<open>true\<close> and an object parsed from JSON have no callable
  \<open>join\<close>, and the call throws a \<open>TypeError\<close>. The joined string itself is not
  computed: \<open>join_elements\<close> returns the elements to be joined.
\<close>

fun join_elements :: "string \<Rightarrow> js \<Rightarrow> js_error + js list" where
  "join_elements k (JArr xs) = Inr xs"
| "join_elements k v =
     Inl (Thrown TypeError (Some (''(aiResult.'' @ k @ '' || []).join is not a function'')))"

definition flattenedResult_reads ::
  "js \<Rightarrow> js_error + js \<times> js \<times> js list \<times> js list \<times> js list \<times> js list" where
  "flattenedResult_reads aiResult =
     bind_err (get_field aiResult ''score'') (\<lambda>score.
     bind_err (get_field aiResult ''summary'') (\<lambda>summary.
     bind_err (get_field aiResult ''color_palette'') (\<lambda>color_palette.
     bind_err (join_elements ''color_palette'' (js_or color_palette (JArr []))) (\<lambda>palette.
     bind_err (get_field aiResult ''design_flaws'') (\<lambda>design_flaws.
     bind_err (join_elements ''design_flaws'' (js_or design_flaws (JArr []))) (\<lambda>issues.
     bind_err (get_field aiResult ''positive_aspects'') (\<lambda>positive_aspects.
     bind_err (join_elements ''positive_aspects'' (js_or positive_aspects (JArr [])))
       (\<lambda>positives.
     bind_err (get_field aiResult ''recommendations'') (\<lambda>recommendations.
     bind_err (join_elements ''recommendations'' (js_or recommendations (JArr [])))
       (\<lambda>advice.
       Inr (js_or score (JNum 0), js_or summary (JStr ''No summary available''),
            palette, issues, positives, advice)))))))))))"

text \<open>
  When the four joins go through: each of the four list fields of the response is an
  array or falsy.
\<close>

fun array_or_falsy :: "js \<Rightarrow> bool" where
  "array_or_falsy (JArr xs) = True"
| "array_or_falsy v = (\<not> truthy v)"

definition lists_joinable :: "js \<Rightarrow> bool" where
  "lists_joinable aiResult =
     (case get_field aiResult ''color_palette'' of
        Inl e \<Rightarrow> False
      | Inr v1 \<Rightarrow> array_or_falsy v1 \<and>
          (case get_field aiResult ''design_flaws'' of
             Inl e \<Rightarrow> False
           | Inr v2 \<Rightarrow> array_or_falsy v2 \<and>
               (case get_field aiResult ''positive_aspects'' of
                  Inl e \<Rightarrow> False
                | Inr v3 \<Rightarrow> array_or_falsy v3 \<and>
                    (case get_field aiResult ''recommendations'' of
                       Inl e \<Rightarrow> False
                     | Inr v4 \<Rightarrow> array_or_falsy v4))))"

text \<open>
  The \<open>auditResult\<close> of this request handler: what throws while \<open>flattenedResult\<close> is
  built is thrown before the literal is reached.
\<close>

definition auditResult_part_002 ::
  "string \<Rightarrow> string \<Rightarrow> string \<Rightarrow> string \<Rightarrow> string \<Rightarrow> js \<Rightarrow>
   (string \<times> js) list \<Rightarrow> (string \<times> js) list \<Rightarrow> (string \<times> js) list \<Rightarrow> (string \<times> js) list \<Rightarrow>
   (string \<times> js) list \<Rightarrow> (string \<times> js) list \<Rightarrow> (string \<times> js) list \<Rightarrow> string \<Rightarrow>
   js_error + (string \<times> js) list" where
  "auditResult_part_002 url audit_date analysisType viewPort ai_provider aiResult
     technologies performance accessibility mobile seo content conversion screenshotUrl =
     bind_err (flattenedResult_reads aiResult) (\<lambda>flattened.
     bind_err (get_field aiResult ''score'') (\<lambda>score.
     bind_err (get_field aiResult ''summary'') (\<lambda>summary.
     bind_err (get_field aiResult ''color_palette'') (\<lambda>color_palette.
     bind_err (get_field aiResult ''design_flaws'') (\<lambda>design_flaws.
     bind_err (get_field aiResult ''positive_aspects'') (\<lambda>positive_aspects.
     bind_err (get_field aiResult ''recommendations'') (\<lambda>recommendations.
     bind_err (get_field aiResult ''score'') (\<lambda>overall_ux.
       Inr [(''url'', JStr url),
            (''audit_date'', JStr audit_date),
            (''analysis_type'', JStr analysisType),
            (''viewport'', JStr viewPort),
            (''ai_provider'', JStr ai_provider),
            (''overall_score'', js_or score (JNum 0)),
            (''ai_summary'', js_or summary (JStr ''No summary available'')),
            (''color_palette'', js_or color_palette (JArr [])),
            (''design_flaws'', js_or design_flaws (JArr [])),
            (''positive_aspects'', js_or positive_aspects (JArr [])),
            (''ai_recommendations'', js_or recommendations (JArr [])),
            (''technology_stack'', JObj technologies),
            (''performance_metrics'', JObj performance),
            (''accessibility_analysis'', JObj accessibility),
            (''mobile_analysis'', JObj mobile),
            (''seo_analysis'', JObj seo),
            (''content_analysis'', JObj content),
            (''conversion_analysis'', JObj conversion),
            (''scores'',
               JObj [(''overall_ux'', js_or overall_ux (JNum 0)),
                     (''performance'', own performance ''performance_score''),
                     (''accessibility'', own accessibility ''accessibility_score''),
                     (''mobile'', own mobile ''mobile_score''),
                     (''seo'', own seo ''seo_score''),
                     (''content'', own content ''content_score''),
                     (''conversion'', own conversion ''conversion_score'')]),
            (''screenshot_url'', JStr screenshotUrl)]))))))))"

text \<open>
  Reading the record that was built: the value stored under a key, and the keys in the
  order of the literal. An invocation that threw has built no record.
\<close>

definition field_of :: "js_error + (string \<times> js) list \<Rightarrow> string \<Rightarrow> js option" where
  "field_of r k = (case r of Inl e \<Rightarrow> None | Inr kvs \<Rightarrow> map_of kvs k)"


section \<open>Simulated providers\<close>

text \<open>
  Concrete environments for the examples: the errors a provider SDK reports, the
  response of the end-to-end scenario with its parsed value, four further parsed
  responses (one without the three list fields, one whose summary is the empty
  string, one whose values are all falsy or empty, one whose colour palette is a
  string instead of an array), the seven analysis objects as their functions
  initialise them (and return them when the page cannot be evaluated), the record the
  second request handler builds for the end-to-end response, a reply that is a JSON
  object of 429 characters followed by further text, and a \<open>JSON.parse\<close> that knows
  these two texts. The message of its \<open>SyntaxError\<close> is the one V8 gives for text after
  the JSON value; it names the position of the offending character.
\<close>

definition rate_limit_error :: js_error where
  "rate_limit_error = Thrown APIError (Some ''429 Rate limit reached for requests'')"

definition unauthorized_error :: js_error where
  "unauthorized_error = Thrown APIError (Some ''401 Incorrect API key provided'')"

definition sample_text :: string where
  \<open>sample_text =
     ''{"score":8,"summary":"Good structure","color_palette":["#FFFFFF"],'' @
     ''"design_flaws":[],"positive_aspects":["Clear headings"],'' @
     ''"recommendations":["Add meta description"]}''\<close>

definition sample_response :: js where
  "sample_response =
     JObj [(''score'', JNum 8),
           (''summary'', JStr ''Good structure''),
           (''color_palette'', JArr [JStr ''#FFFFFF'']),
           (''design_flaws'', JArr []),
           (''positive_aspects'', JArr [JStr ''Clear headings'']),
           (''recommendations'', JArr [JStr ''Add meta description''])]"

definition partial_response :: js where
  "partial_response =
     JObj [(''score'', JNum 8),
           (''summary'', JStr ''Good structure''),
           (''positive_aspects'', JArr [JStr ''Clear headings''])]"

definition blank_summary_response :: js where
  "blank_summary_response =
     JObj [(''score'', JNum 8),
           (''summary'', JStr []),
           (''positive_aspects'', JArr [JStr ''Clear headings''])]"


definition string_in_list_response :: js where
  "string_in_list_response =
     JObj [(''score'', JNum 8),
           (''summary'', JStr []),
           (''color_palette'', JStr ''#fff'')]"

definition initial_technologies :: "(string \<times> js) list" where
  "initial_technologies =
     [(''frontend_framework'', JNull), (''css_framework'', JNull),
      (''javascript_libraries'', JArr []), (''analytics'', JArr []),
      (''hosting_provider'', JNull), (''cdn'', JNull), (''cms'', JNull),
      (''ecommerce'', JNull), (''payment_processors'', JArr []),
      (''chat_widgets'', JArr []), (''marketing_tools'', JArr []), (''security'', JArr []),
      (''performance'', JArr []), (''fonts'', JArr []), (''icons'', JArr []),
      (''meta_generator'', JNull), (''server_info'', JNull)]"

definition initial_performance :: "(string \<times> js) list" where
  "initial_performance =
     [(''page_load_time'', JNum 0), (''page_size_mb'', JNum 0), (''image_count'', JNum 0),
      (''external_links_count'', JNum 0), (''internal_links_count'', JNum 0),
      (''form_count'', JNum 0), (''button_count'', JNum 0), (''script_count'', JNum 0),
      (''stylesheet_count'', JNum 0), (''performance_score'', JNum 0)]"

definition initial_accessibility :: "(string \<times> js) list" where
  "initial_accessibility =
     [(''accessibility_score'', JNum 0), (''wcag_violations'', JArr []),
      (''keyboard_navigation_score'', JNum 0), (''screen_reader_compatibility'', JNum 0),
      (''color_blind_friendly'', JBool True), (''font_size_compliance'', JBool True),
      (''alt_text_missing'', JNum 0), (''heading_structure_score'', JNum 0),
      (''form_labels_score'', JNum 0), (''contrast_issues'', JNum 0)]"

definition initial_mobile :: "(string \<times> js) list" where
  "initial_mobile =
     [(''mobile_score'', JNum 0), (''responsive_breakpoints'', JArr []),
      (''touch_target_compliance'', JNum 0), (''mobile_navigation_type'', JNull),
      (''viewport_meta_present'', JBool False), (''mobile_specific_issues'', JArr [])]"

definition initial_seo :: "(string \<times> js) list" where
  "initial_seo =
     [(''seo_score'', JNum 0), (''meta_title'', JNull), (''meta_description'', JNull),
      (''h1_tags'', JArr []), (''h2_tags'', JArr []), (''missing_meta_tags'', JArr []),
      (''structured_data_present'', JBool False), (''image_alt_optimization'', JNum 0),
      (''internal_links_count'', JNum 0), (''external_links_count'', JNum 0)]"

definition initial_content :: "(string \<times> js) list" where
  "initial_content =
     [(''content_score'', JNum 0), (''word_count'', JNum 0), (''paragraph_count'', JNum 0),
      (''heading_count'', JNum 0), (''call_to_action_count'', JNum 0),
      (''social_proof_elements'', JArr []), (''readability_score'', JNum 0),
      (''content_structure_score'', JNum 0)]"

definition initial_conversion :: "(string \<times> js) list" where
  "initial_conversion =
     [(''conversion_score'', JNum 0), (''cta_visibility_score'', JNum 0),
      (''trust_signals'', JArr []), (''friction_points'', JArr []),
      (''value_proposition_clarity'', JNum 0), (''urgency_elements'', JArr []),
      (''social_proof_score'', JNum 0), (''form_optimization_score'', JNum 0)]"


definition trailing_text :: string where
  \<open>trailing_text =
     ''{"summary":"'' @ replicate 415 (CHR ''a'') @ ''"}Hope this helps''\<close>

definition trailing_text_error :: js_error where
  "trailing_text_error =
     Thrown SyntaxError
       (Some ''Unexpected non-whitespace character after JSON at position 429'')"

definition simulated_JSON_parse :: "string \<Rightarrow> js_error + js" where
  "simulated_JSON_parse t =
     (if t = sample_text then Inr sample_response else Inl trailing_text_error)"

definition limited_twice :: "nat \<Rightarrow> create_outcome" where
  "limited_twice n = (if n < 2 then Rejects rate_limit_error else Resolves sample_text)"

definition limited_always :: "nat \<Rightarrow> create_outcome" where
  "limited_always n = Rejects rate_limit_error"

definition unauthorized :: "nat \<Rightarrow> create_outcome" where
  "unauthorized n = Rejects unauthorized_error"

definition limited_then_unauthorized :: "nat \<Rightarrow> create_outcome" where
  "limited_then_unauthorized n =
     (if n = 0 then Rejects rate_limit_error else Rejects unauthorized_error)"

definition limited_twice_then_unauthorized :: "nat \<Rightarrow> create_outcome" where
  "limited_twice_then_unauthorized n =
     (if n < 2 then Rejects rate_limit_error else Rejects unauthorized_error)"

definition malformed_once :: "nat \<Rightarrow> create_outcome" where
  "malformed_once n = (if n = 0 then Resolves trailing_text else Resolves sample_text)"

definition fresh :: world where
  "fresh = \<lparr>requests = [], sleeps = []\<rparr>"

section \<open>Properties of provider selection\<close>

lemma startsWith_nonempty: "startsWith k p \<Longrightarrow> p \<noteq> [] \<Longrightarrow> k \<noteq> []"
  by (auto simp: startsWith_def)

lemma startsWith_append: "startsWith s p = (\<exists>r. s = p @ r)"
  unfolding startsWith_def by (metis append_eq_conv_conj append_take_drop_id)

lemma sk_or_startsWith_sk: "startsWith k ''sk-or-'' \<Longrightarrow> startsWith k ''sk-''"
proof -
  assume "startsWith k ''sk-or-''"
  then obtain r where "k = ''sk-or-'' @ r"
    using startsWith_append by blast
  then show ?thesis by (simp add: startsWith_def)
qed

text \<open>
  C2. Every credential that starts with \<open>sk-or-\<close> also starts with the generic prefix
  \<open>sk-\<close>, and \<open>initializeAIProvider\<close> nevertheless returns the OpenRouter handle for
  it, never the OpenAI one: the specific prefix is tested first.
\<close>

theorem initializeAIProvider_openrouter_before_openai:
  assumes "startsWith apiKey ''sk-or-''"
  shows "startsWith apiKey ''sk-'' \<and>
         initializeAIProvider (Some apiKey) =
           Inr \<lparr>type = ''openrouter'',
                client = OpenAI apiKey (Some ''https://openrouter.ai/api/v1'')
                           [(''HTTP-Referer'', ''https://apify.com/''),
                            (''X-Title'', ''Apify UI/UX Auditor'')],
                model = Some ''openai/gpt-4o-mini''\<rparr> \<and>
         map_sum id type (initializeAIProvider (Some apiKey)) \<noteq> Inr ''openai''"
proof -
  have ne: "apiKey \<noteq> []"
    using assms startsWith_nonempty by fastforce
  show ?thesis
    using assms ne sk_or_startsWith_sk [OF assms]
    by (simp add: initializeAIProvider_def)
qed

theorem initializeAIProvider_openrouter_witness:
  "startsWith ''sk-or-v1-abc'' ''sk-or-'' \<and> startsWith ''sk-or-v1-abc'' ''sk-'' \<and>
   map_sum id type (initializeAIProvider (Some ''sk-or-v1-abc'')) = Inr ''openrouter''"
proof -
  have h: "startsWith ''sk-or-v1-abc'' ''sk-or-''" by (simp add: startsWith_def)
  show ?thesis
    using h initializeAIProvider_openrouter_before_openai [OF h] by simp
qed

text \<open>
  C3. A non-empty credential that starts with none of \<open>sk-or-\<close>, \<open>sk-\<close>, \<open>AIza\<close> makes
  \<open>initializeAIProvider\<close> throw the invalid-format error; no handle is returned.
\<close>

theorem initializeAIProvider_unrecognized_prefix:
  assumes "apiKey \<noteq> []"
    and "\<not> startsWith apiKey ''sk-or-''"
    and "\<not> startsWith apiKey ''sk-''"
    and "\<not> startsWith apiKey ''AIza''"
  shows "initializeAIProvider (Some apiKey) = Inl (Thrown Error (Some invalid_api_key_format))"
  using assms by (simp add: initializeAIProvider_def)

theorem initializeAIProvider_unrecognized_witness:
  "initializeAIProvider (Some ''pk-live-123'') = Inl (Thrown Error (Some invalid_api_key_format))"
proof -
  have "''pk-live-123'' \<noteq> []"
    and "\<not> startsWith ''pk-live-123'' ''sk-or-''"
    and "\<not> startsWith ''pk-live-123'' ''sk-''"
    and "\<not> startsWith ''pk-live-123'' ''AIza''"
    by (simp_all add: startsWith_def)
  then show ?thesis by (rule initializeAIProvider_unrecognized_prefix)
qed

text \<open>
  C9. Every handle \<open>initializeAIProvider\<close> returns has a \<open>type\<close> that agrees with the
  prefix of the credential. The OpenRouter and OpenAI handles carry the fixed model of
  their kind; the Gemini handle, returned for \<open>AIza\<close> credentials, has no \<open>model\<close>
  property.
\<close>

theorem initializeAIProvider_handle_consistent:
  assumes "initializeAIProvider (Some apiKey) = Inr h"
  shows "(startsWith apiKey ''sk-or-'' \<and> type h = ''openrouter'' \<and>
            model h = Some ''openai/gpt-4o-mini'') \<or>
         (\<not> startsWith apiKey ''sk-or-'' \<and> startsWith apiKey ''sk-'' \<and>
            type h = ''openai'' \<and> model h = Some ''gpt-4o'') \<or>
         (\<not> startsWith apiKey ''sk-'' \<and> startsWith apiKey ''AIza'' \<and>
            type h = ''gemini'' \<and> model h = None)"
  using assms sk_or_startsWith_sk [of apiKey]
  by (auto simp: initializeAIProvider_def split: if_splits)

theorem initializeAIProvider_handle_consistent_witness:
  "initializeAIProvider (Some ''sk-proj-1'') =
     Inr \<lparr>type = ''openai'', client = OpenAI ''sk-proj-1'' None [], model = Some ''gpt-4o''\<rparr> \<and>
   \<not> startsWith ''sk-proj-1'' ''sk-or-'' \<and> startsWith ''sk-proj-1'' ''sk-''"
proof -
  have h: "initializeAIProvider (Some ''sk-proj-1'') =
     Inr \<lparr>type = ''openai'', client = OpenAI ''sk-proj-1'' None [], model = Some ''gpt-4o''\<rparr>"
    by (simp add: initializeAIProvider_def startsWith_def)
  show ?thesis
    using h initializeAIProvider_handle_consistent [OF h] by (simp add: startsWith_def)
qed

theorem initializeAIProvider_gemini_no_model:
  "initializeAIProvider (Some ''AIza_test_key'') =
     Inr \<lparr>type = ''gemini'', client = GoogleGenerativeAI ''AIza_test_key'', model = None\<rparr>"
  by (simp add: initializeAIProvider_def startsWith_def)

section \<open>Properties of the prompt lookup\<close>

lemma ANALYSIS_PROMPTS_keys:
  "map fst ANALYSIS_PROMPTS =
     [''general'', ''accessibility'', ''conversion'', ''performance'', ''seo'',
      ''mobile-first'', ''brand-consistency'']"
  by (simp add: ANALYSIS_PROMPTS_def)

lemma prompts_nonempty:
  "list_all (\<lambda>kv. snd kv \<noteq> []) ANALYSIS_PROMPTS"
  by (simp add: ANALYSIS_PROMPTS_def prompt_general_def prompt_accessibility_def
      prompt_conversion_def prompt_performance_def prompt_seo_def prompt_mobile_first_def
      prompt_brand_consistency_def)

lemma prompts_distinct: "distinct (map snd ANALYSIS_PROMPTS)"
  by (simp add: ANALYSIS_PROMPTS_def prompt_general_def prompt_accessibility_def
      prompt_conversion_def prompt_performance_def prompt_seo_def prompt_mobile_first_def
      prompt_brand_consistency_def)

lemma select_prompt_defined:
  "select_prompt ''general'' = Instruction prompt_general"
  "select_prompt ''accessibility'' = Instruction prompt_accessibility"
  "select_prompt ''conversion'' = Instruction prompt_conversion"
  "select_prompt ''performance'' = Instruction prompt_performance"
  "select_prompt ''seo'' = Instruction prompt_seo"
  "select_prompt ''mobile-first'' = Instruction prompt_mobile_first"
  "select_prompt ''brand-consistency'' = Instruction prompt_brand_consistency"
  using prompts_nonempty
  by (simp_all add: select_prompt_def ANALYSIS_PROMPTS_get_def ANALYSIS_PROMPTS_def)

lemma select_prompt_fallback:
  assumes "analysisType \<notin> set (map fst ANALYSIS_PROMPTS)"
    and "analysisType \<notin> set Object_prototype_properties"
  shows "select_prompt analysisType = Instruction prompt_general"
proof -
  have "map_of ANALYSIS_PROMPTS analysisType = None"
    using assms(1) by (simp add: map_of_eq_None_iff)
  then show ?thesis
    using assms(2) by (simp add: select_prompt_def ANALYSIS_PROMPTS_get_def)
qed

text \<open>
  C8. Each of the seven categories selects its own instruction, none of them empty and
  no two of them equal (the lemmas above), and a tag that is neither one of the
  seven nor the name of a property inherited from \<open>Object.prototype\<close> selects the
  instruction of \<open>general\<close>. A tag such as \<open>toString\<close> is not among the seven either,
  but the lookup finds the inherited function, which is truthy, and the fallback is
  not taken: the prompt is not the instruction of \<open>general\<close>.
\<close>

theorem select_prompt_inherited_property:
  "''toString'' \<notin> set (map fst ANALYSIS_PROMPTS) \<and>
   select_prompt ''toString'' = Builtin ''toString'' \<and>
   select_prompt ''toString'' \<noteq> select_prompt ''general''"
  by (simp add: select_prompt_def ANALYSIS_PROMPTS_get_def ANALYSIS_PROMPTS_def
      Object_prototype_properties_def)

section \<open>Properties of the retry loop\<close>

lemma attempt_loop_exhausted:
  "maxRetries < attempt \<Longrightarrow>
   attempt_loop api P req attempt lastError w =
     (Inl (Thrown Error (Some (''API failed after 3 attempts. Last error: '' @
                               last_error_text lastError))), w)"
  by (subst attempt_loop.simps) simp

lemma attempt_loop_success:
  "attempt \<le> maxRetries \<Longrightarrow> try_block api P w = Inr v \<Longrightarrow>
   attempt_loop api P req attempt lastError w = (Inr v, w\<lparr>requests := requests w @ [req]\<rparr>)"
  by (subst attempt_loop.simps) simp

lemma attempt_loop_abort:
  "attempt \<le> maxRetries \<Longrightarrow> try_block api P w = Inl e \<Longrightarrow> \<not> is_rate_limit e \<Longrightarrow>
   attempt_loop api P req attempt lastError w = (Inl e, w\<lparr>requests := requests w @ [req]\<rparr>)"
  by (subst attempt_loop.simps) simp

lemma attempt_loop_retry:
  "attempt \<le> maxRetries \<Longrightarrow> try_block api P w = Inl e \<Longrightarrow> is_rate_limit e \<Longrightarrow>
   attempt_loop api P req attempt lastError w =
     attempt_loop api P req (attempt + 1) (Some e)
       (w\<lparr>requests := requests w @ [req], sleeps := sleeps w @ [2 ^ attempt * 1000]\<rparr>)"
  by (subst attempt_loop.simps) simp

lemma attempt_loop_requests_bound:
  "length (requests (snd (attempt_loop api P req attempt lastError w)))
     \<le> length (requests w) + (Suc maxRetries - attempt)"
proof (induction api P req attempt lastError w rule: attempt_loop.induct)
  case (1 api P req attempt lastError w)
  show ?case
  proof (cases "attempt \<le> maxRetries")
    case False
    then show ?thesis by (simp add: attempt_loop_exhausted)
  next
    case le: True
    show ?thesis
    proof (cases "try_block api P w")
      case (Inr v)
      with le show ?thesis by (simp add: attempt_loop_success)
    next
      case (Inl e)
      show ?thesis
      proof (cases "is_rate_limit e")
        case False
        with le Inl show ?thesis by (simp add: attempt_loop_abort)
      next
        case True
        from "1.IH" [OF le Inl True] le Inl True show ?thesis
          by (simp add: attempt_loop_retry)
      qed
    qed
  qed
qed

lemma attempt_loop_requests_mono:
  "length (requests w) \<le> length (requests (snd (attempt_loop api P req attempt lastError w)))"
proof (induction api P req attempt lastError w rule: attempt_loop.induct)
  case (1 api P req attempt lastError w)
  show ?case
  proof (cases "attempt \<le> maxRetries")
    case False
    then show ?thesis by (simp add: attempt_loop_exhausted)
  next
    case le: True
    show ?thesis
    proof (cases "try_block api P w")
      case (Inr v)
      with le show ?thesis by (simp add: attempt_loop_success)
    next
      case (Inl e)
      show ?thesis
      proof (cases "is_rate_limit e")
        case False
        with le Inl show ?thesis by (simp add: attempt_loop_abort)
      next
        case True
        from "1.IH" [OF le Inl True] le Inl True show ?thesis
          by (simp add: attempt_loop_retry)
      qed
    qed
  qed
qed

lemma try_block_fresh:
  "try_block api P \<lparr>requests = [], sleeps = ss\<rparr> =
     (case api 0 of Rejects e \<Rightarrow> Inl e | Resolves content \<Rightarrow> P content)"
  "try_block api P \<lparr>requests = [r], sleeps = ss\<rparr> =
     (case api 1 of Rejects e \<Rightarrow> Inl e | Resolves content \<Rightarrow> P content)"
  "try_block api P \<lparr>requests = [r, r'], sleeps = ss\<rparr> =
     (case api 2 of Rejects e \<Rightarrow> Inl e | Resolves content \<Rightarrow> P content)"
  by (simp_all add: try_block_def numeral_2_eq_2)

lemma limited_twice_then_success:
  assumes "api 0 = Rejects e1" "is_rate_limit e1"
    and "api 1 = Rejects e2" "is_rate_limit e2"
    and "api 2 = Resolves t" "P t = Inr v"
  shows "analyzeWithOpenAI api P shot aType url (Some m) fresh =
           (Inr v, \<lparr>requests = replicate 3 (chat_request shot aType url m),
                    sleeps = [2000, 4000]\<rparr>)"
  using assms
  by (simp add: analyzeWithOpenAI_def numeral_3_eq_3 fresh_def attempt_loop_retry attempt_loop_success try_block_fresh
      maxRetries_def)

lemma first_error_not_rate_limit:
  assumes "try_block api P fresh = Inl e" "\<not> is_rate_limit e"
  shows "analyzeWithOpenAI api P shot aType url (Some m) fresh =
           (Inl e, \<lparr>requests = [chat_request shot aType url m], sleeps = []\<rparr>)"
  using assms by (simp add: analyzeWithOpenAI_def fresh_def attempt_loop_abort maxRetries_def)

lemma second_error_not_rate_limit:
  assumes "try_block api P fresh = Inl e1" "is_rate_limit e1"
    and "try_block api P \<lparr>requests = [chat_request shot aType url m], sleeps = [2000]\<rparr> = Inl e2"
    and "\<not> is_rate_limit e2"
  shows "analyzeWithOpenAI api P shot aType url (Some m) fresh =
           (Inl e2, \<lparr>requests = replicate 2 (chat_request shot aType url m),
                     sleeps = [2000]\<rparr>)"
  using assms
  by (simp add: analyzeWithOpenAI_def numeral_2_eq_2 fresh_def attempt_loop_retry
      attempt_loop_abort maxRetries_def)

lemma third_error_not_rate_limit:
  assumes "try_block api P fresh = Inl e1" "is_rate_limit e1"
    and "try_block api P \<lparr>requests = [chat_request shot aType url m], sleeps = [2000]\<rparr> = Inl e2"
    and "is_rate_limit e2"
    and "try_block api P
           \<lparr>requests = [chat_request shot aType url m, chat_request shot aType url m],
            sleeps = [2000, 4000]\<rparr> = Inl e3"
    and "\<not> is_rate_limit e3"
  shows "analyzeWithOpenAI api P shot aType url (Some m) fresh =
           (Inl e3, \<lparr>requests = replicate 3 (chat_request shot aType url m),
                     sleeps = [2000, 4000]\<rparr>)"
  using assms
  by (simp add: analyzeWithOpenAI_def numeral_3_eq_3 numeral_2_eq_2 fresh_def
      attempt_loop_retry attempt_loop_abort maxRetries_def)

lemma limited_three_times:
  assumes "api 0 = Rejects e1" "is_rate_limit e1"
    and "api 1 = Rejects e2" "is_rate_limit e2"
    and "api 2 = Rejects (Thrown c (Some msg))" "is_rate_limit (Thrown c (Some msg))"
  shows "analyzeWithOpenAI api P shot aType url (Some m) fresh =
           (Inl (Thrown Error (Some (''API failed after 3 attempts. Last error: '' @ msg))),
            \<lparr>requests = replicate 3 (chat_request shot aType url m),
             sleeps = [2000, 4000, 8000]\<rparr>)"
  using assms
  by (simp add: analyzeWithOpenAI_def numeral_3_eq_3 fresh_def attempt_loop_retry
      attempt_loop_exhausted try_block_fresh maxRetries_def last_error_text_def)

text \<open>
  C1. \<open>analyzeWithOpenAI\<close> sends at most three requests. When the first two calls are
  rejected with rate-limit errors (a message containing \<open>429\<close> or \<open>rate limit\<close>) and
  the third resolves with text that parses, the parsed value is returned after three
  requests and sleeps of 2000 ms and 4000 ms. At every attempt and in every state of
  the loop, an error that is not a rate-limit error is rethrown after the request of
  that attempt, with no sleep and no further request, and a rate-limit error makes the
  loop sleep \<open>2 ^ attempt\<close> seconds and go on with the next attempt. So such an error is
  rethrown after one request and no sleep when it is the first, after two requests and
  one sleep when it is the second, and after three requests and two sleeps when it is
  the third. When all three calls are rejected with rate-limit errors the function
  throws an \<open>Error\<close> whose message ends with the message of the last one, after three
  requests and sleeps of 2000, 4000 and 8000 ms.
\<close>

theorem analyzeWithOpenAI_retry_policy:
  "length (requests (snd (analyzeWithOpenAI api P shot aType url (Some m) fresh))) \<le> 3 \<and>
   (apiA 0 = Rejects a1 \<and> is_rate_limit a1 \<and> apiA 1 = Rejects a2 \<and> is_rate_limit a2 \<and>
    apiA 2 = Resolves t \<and> P t = Inr v \<longrightarrow>
      analyzeWithOpenAI apiA P shot aType url (Some m) fresh =
        (Inr v,
         \<lparr>requests = replicate 3 (chat_request shot aType url m), sleeps = [2000, 4000]\<rparr>)) \<and>
   (attemptN \<le> maxRetries \<and> try_block apiN P wN = Inl eN \<and> \<not> is_rate_limit eN \<longrightarrow>
      attempt_loop apiN P reqN attemptN lastN wN =
        (Inl eN, wN\<lparr>requests := requests wN @ [reqN]\<rparr>)) \<and>
   (attemptR \<le> maxRetries \<and> try_block apiR P wR = Inl eR \<and> is_rate_limit eR \<longrightarrow>
      attempt_loop apiR P reqR attemptR lastR wR =
        attempt_loop apiR P reqR (attemptR + 1) (Some eR)
          (wR\<lparr>requests := requests wR @ [reqR],
              sleeps := sleeps wR @ [2 ^ attemptR * 1000]\<rparr>)) \<and>
   (try_block apiB P fresh = Inl b \<and> \<not> is_rate_limit b \<longrightarrow>
      analyzeWithOpenAI apiB P shot aType url (Some m) fresh =
        (Inl b, \<lparr>requests = [chat_request shot aType url m], sleeps = []\<rparr>)) \<and>
   (try_block apiD P fresh = Inl d1 \<and> is_rate_limit d1 \<and>
    try_block apiD P \<lparr>requests = [chat_request shot aType url m], sleeps = [2000]\<rparr> = Inl d2 \<and>
    \<not> is_rate_limit d2 \<longrightarrow>
      analyzeWithOpenAI apiD P shot aType url (Some m) fresh =
        (Inl d2, \<lparr>requests = replicate 2 (chat_request shot aType url m), sleeps = [2000]\<rparr>)) \<and>
   (try_block apiE P fresh = Inl e1 \<and> is_rate_limit e1 \<and>
    try_block apiE P \<lparr>requests = [chat_request shot aType url m], sleeps = [2000]\<rparr> = Inl e2 \<and>
    is_rate_limit e2 \<and>
    try_block apiE P
      \<lparr>requests = [chat_request shot aType url m, chat_request shot aType url m],
       sleeps = [2000, 4000]\<rparr> = Inl e3 \<and>
    \<not> is_rate_limit e3 \<longrightarrow>
      analyzeWithOpenAI apiE P shot aType url (Some m) fresh =
        (Inl e3,
         \<lparr>requests = replicate 3 (chat_request shot aType url m), sleeps = [2000, 4000]\<rparr>)) \<and>
   (apiC 0 = Rejects c1 \<and> is_rate_limit c1 \<and> apiC 1 = Rejects c2 \<and> is_rate_limit c2 \<and>
    apiC 2 = Rejects (Thrown k (Some msg)) \<and> is_rate_limit (Thrown k (Some msg)) \<longrightarrow>
      analyzeWithOpenAI apiC P shot aType url (Some m) fresh =
        (Inl (Thrown Error (Some (''API failed after 3 attempts. Last error: '' @ msg))),
         \<lparr>requests = replicate 3 (chat_request shot aType url m),
          sleeps = [2000, 4000, 8000]\<rparr>))"
proof -
  have bound: "length (requests (snd (analyzeWithOpenAI api P shot aType url (Some m) fresh))) \<le> 3"
    using attempt_loop_requests_bound [of api P "chat_request shot aType url m" 1 None fresh]
    by (simp add: analyzeWithOpenAI_def fresh_def maxRetries_def)
  show ?thesis
  proof (intro conjI impI)
    show "length (requests (snd (analyzeWithOpenAI api P shot aType url (Some m) fresh))) \<le> 3"
      by (rule bound)
  next
    assume "apiA 0 = Rejects a1 \<and> is_rate_limit a1 \<and> apiA 1 = Rejects a2 \<and>
            is_rate_limit a2 \<and> apiA 2 = Resolves t \<and> P t = Inr v"
    then show "analyzeWithOpenAI apiA P shot aType url (Some m) fresh =
        (Inr v,
         \<lparr>requests = replicate 3 (chat_request shot aType url m), sleeps = [2000, 4000]\<rparr>)"
      by (elim conjE) (rule limited_twice_then_success)
  next
    assume "attemptN \<le> maxRetries \<and> try_block apiN P wN = Inl eN \<and> \<not> is_rate_limit eN"
    then show "attempt_loop apiN P reqN attemptN lastN wN =
        (Inl eN, wN\<lparr>requests := requests wN @ [reqN]\<rparr>)"
      by (elim conjE) (rule attempt_loop_abort)
  next
    assume "attemptR \<le> maxRetries \<and> try_block apiR P wR = Inl eR \<and> is_rate_limit eR"
    then show "attempt_loop apiR P reqR attemptR lastR wR =
        attempt_loop apiR P reqR (attemptR + 1) (Some eR)
          (wR\<lparr>requests := requests wR @ [reqR],
              sleeps := sleeps wR @ [2 ^ attemptR * 1000]\<rparr>)"
      by (elim conjE) (rule attempt_loop_retry)
  next
    assume "try_block apiB P fresh = Inl b \<and> \<not> is_rate_limit b"
    then show "analyzeWithOpenAI apiB P shot aType url (Some m) fresh =
        (Inl b, \<lparr>requests = [chat_request shot aType url m], sleeps = []\<rparr>)"
      by (elim conjE) (rule first_error_not_rate_limit)
  next
    assume "try_block apiD P fresh = Inl d1 \<and> is_rate_limit d1 \<and>
      try_block apiD P \<lparr>requests = [chat_request shot aType url m], sleeps = [2000]\<rparr> = Inl d2 \<and>
      \<not> is_rate_limit d2"
    then show "analyzeWithOpenAI apiD P shot aType url (Some m) fresh =
        (Inl d2, \<lparr>requests = replicate 2 (chat_request shot aType url m), sleeps = [2000]\<rparr>)"
      by (elim conjE) (rule second_error_not_rate_limit)
  next
    assume "try_block apiE P fresh = Inl e1 \<and> is_rate_limit e1 \<and>
      try_block apiE P \<lparr>requests = [chat_request shot aType url m], sleeps = [2000]\<rparr> = Inl e2 \<and>
      is_rate_limit e2 \<and>
      try_block apiE P
        \<lparr>requests = [chat_request shot aType url m, chat_request shot aType url m],
         sleeps = [2000, 4000]\<rparr> = Inl e3 \<and>
      \<not> is_rate_limit e3"
    then show "analyzeWithOpenAI apiE P shot aType url (Some m) fresh =
        (Inl e3,
         \<lparr>requests = replicate 3 (chat_request shot aType url m), sleeps = [2000, 4000]\<rparr>)"
      by (elim conjE) (rule third_error_not_rate_limit)
  next
    assume "apiC 0 = Rejects c1 \<and> is_rate_limit c1 \<and> apiC 1 = Rejects c2 \<and>
            is_rate_limit c2 \<and> apiC 2 = Rejects (Thrown k (Some msg)) \<and>
            is_rate_limit (Thrown k (Some msg))"
    then show "analyzeWithOpenAI apiC P shot aType url (Some m) fresh =
        (Inl (Thrown Error (Some (''API failed after 3 attempts. Last error: '' @ msg))),
         \<lparr>requests = replicate 3 (chat_request shot aType url m),
          sleeps = [2000, 4000, 8000]\<rparr>)"
      by (elim conjE) (rule limited_three_times)
  qed
qed

theorem analyzeWithOpenAI_retry_policy_witness:
  "analyzeWithOpenAI limited_twice simulated_JSON_parse ''iVBORw0KGgo='' ''seo''
     ''https://example.com'' (Some ''gpt-4o'') fresh =
     (Inr sample_response,
      \<lparr>requests = replicate 3 (chat_request ''iVBORw0KGgo='' ''seo'' ''https://example.com'' ''gpt-4o''),
       sleeps = [2000, 4000]\<rparr>) \<and>
   analyzeWithOpenAI unauthorized simulated_JSON_parse ''iVBORw0KGgo='' ''seo''
     ''https://example.com'' (Some ''gpt-4o'') fresh =
     (Inl unauthorized_error,
      \<lparr>requests = [chat_request ''iVBORw0KGgo='' ''seo'' ''https://example.com'' ''gpt-4o''],
       sleeps = []\<rparr>) \<and>
   analyzeWithOpenAI limited_then_unauthorized simulated_JSON_parse ''iVBORw0KGgo='' ''seo''
     ''https://example.com'' (Some ''gpt-4o'') fresh =
     (Inl unauthorized_error,
      \<lparr>requests = replicate 2 (chat_request ''iVBORw0KGgo='' ''seo'' ''https://example.com'' ''gpt-4o''),
       sleeps = [2000]\<rparr>) \<and>
   analyzeWithOpenAI limited_twice_then_unauthorized simulated_JSON_parse ''iVBORw0KGgo=''
     ''seo'' ''https://example.com'' (Some ''gpt-4o'') fresh =
     (Inl unauthorized_error,
      \<lparr>requests = replicate 3 (chat_request ''iVBORw0KGgo='' ''seo'' ''https://example.com'' ''gpt-4o''),
       sleeps = [2000, 4000]\<rparr>) \<and>
   attempt_loop limited_twice_then_unauthorized simulated_JSON_parse
     (chat_request ''iVBORw0KGgo='' ''seo'' ''https://example.com'' ''gpt-4o'') 3
     (Some rate_limit_error)
     \<lparr>requests = replicate 2 (chat_request ''iVBORw0KGgo='' ''seo'' ''https://example.com'' ''gpt-4o''),
      sleeps = [2000, 4000]\<rparr> =
     (Inl unauthorized_error,
      \<lparr>requests = replicate 3 (chat_request ''iVBORw0KGgo='' ''seo'' ''https://example.com'' ''gpt-4o''),
       sleeps = [2000, 4000]\<rparr>) \<and>
   attempt_loop limited_always simulated_JSON_parse
     (chat_request ''iVBORw0KGgo='' ''seo'' ''https://example.com'' ''gpt-4o'') 3
     (Some rate_limit_error)
     \<lparr>requests = replicate 2 (chat_request ''iVBORw0KGgo='' ''seo'' ''https://example.com'' ''gpt-4o''),
      sleeps = [2000, 4000]\<rparr> =
     attempt_loop limited_always simulated_JSON_parse
       (chat_request ''iVBORw0KGgo='' ''seo'' ''https://example.com'' ''gpt-4o'') 4
       (Some rate_limit_error)
       \<lparr>requests = replicate 3 (chat_request ''iVBORw0KGgo='' ''seo'' ''https://example.com'' ''gpt-4o''),
        sleeps = [2000, 4000, 8000]\<rparr> \<and>
   analyzeWithOpenAI limited_always simulated_JSON_parse ''iVBORw0KGgo='' ''seo''
     ''https://example.com'' (Some ''gpt-4o'') fresh =
     (Inl (Thrown Error (Some (''API failed after 3 attempts. Last error: '' @
                               ''429 Rate limit reached for requests''))),
      \<lparr>requests = replicate 3 (chat_request ''iVBORw0KGgo='' ''seo'' ''https://example.com'' ''gpt-4o''),
       sleeps = [2000, 4000, 8000]\<rparr>)"
proof -
  let ?r = "chat_request ''iVBORw0KGgo='' ''seo'' ''https://example.com'' ''gpt-4o''"
  have rl: "is_rate_limit rate_limit_error" and nrl: "\<not> is_rate_limit unauthorized_error"
    by (simp_all add: is_rate_limit_def rate_limit_error_def unauthorized_error_def
        startsWith_def)
  have ok: "simulated_JSON_parse sample_text = Inr sample_response"
    by (simp add: simulated_JSON_parse_def)
  have first: "try_block unauthorized simulated_JSON_parse fresh = Inl unauthorized_error"
    by (simp add: try_block_def unauthorized_def)
  have d: "try_block limited_then_unauthorized simulated_JSON_parse fresh = Inl rate_limit_error"
    "try_block limited_then_unauthorized simulated_JSON_parse
       \<lparr>requests = [?r], sleeps = [2000]\<rparr> = Inl unauthorized_error"
    by (simp_all add: try_block_def limited_then_unauthorized_def fresh_def)
  have e: "try_block limited_twice_then_unauthorized simulated_JSON_parse fresh =
             Inl rate_limit_error"
    "try_block limited_twice_then_unauthorized simulated_JSON_parse
       \<lparr>requests = [?r], sleeps = [2000]\<rparr> = Inl rate_limit_error"
    "try_block limited_twice_then_unauthorized simulated_JSON_parse
       \<lparr>requests = [?r, ?r], sleeps = [2000, 4000]\<rparr> = Inl unauthorized_error"
    by (simp_all add: try_block_def limited_twice_then_unauthorized_def fresh_def)
  have r: "try_block limited_always simulated_JSON_parse
       \<lparr>requests = [?r, ?r], sleeps = [2000, 4000]\<rparr> = Inl rate_limit_error"
    by (simp add: try_block_def limited_always_def)
  have three: "(3::nat) \<le> maxRetries"
    by (simp add: maxRetries_def)
  note T = analyzeWithOpenAI_retry_policy [where P = simulated_JSON_parse
        and shot = "''iVBORw0KGgo=''" and aType = "''seo''"
        and url = "''https://example.com''" and m = "''gpt-4o''"
        and apiA = limited_twice and ?a1.0 = rate_limit_error and ?a2.0 = rate_limit_error
        and t = sample_text and v = sample_response
        and apiN = limited_twice_then_unauthorized and attemptN = 3
        and wN = "\<lparr>requests = [?r, ?r], sleeps = [2000, 4000]\<rparr>"
        and eN = unauthorized_error and reqN = ?r and lastN = "Some rate_limit_error"
        and apiR = limited_always and attemptR = 3
        and wR = "\<lparr>requests = [?r, ?r], sleeps = [2000, 4000]\<rparr>"
        and eR = rate_limit_error and reqR = ?r and lastR = "Some rate_limit_error"
        and apiB = unauthorized and b = unauthorized_error
        and apiD = limited_then_unauthorized and ?d1.0 = rate_limit_error
        and ?d2.0 = unauthorized_error
        and apiE = limited_twice_then_unauthorized and ?e1.0 = rate_limit_error
        and ?e2.0 = rate_limit_error and ?e3.0 = unauthorized_error
        and apiC = limited_always and ?c1.0 = rate_limit_error and ?c2.0 = rate_limit_error
        and k = APIError and msg = "''429 Rate limit reached for requests''"]
  have A: "analyzeWithOpenAI limited_twice simulated_JSON_parse ''iVBORw0KGgo='' ''seo''
     ''https://example.com'' (Some ''gpt-4o'') fresh =
     (Inr sample_response, \<lparr>requests = replicate 3 ?r, sleeps = [2000, 4000]\<rparr>)"
    using T rl ok by (simp add: limited_twice_def)
  have B: "analyzeWithOpenAI unauthorized simulated_JSON_parse ''iVBORw0KGgo='' ''seo''
     ''https://example.com'' (Some ''gpt-4o'') fresh =
     (Inl unauthorized_error, \<lparr>requests = [?r], sleeps = []\<rparr>)"
    using T nrl first by blast
  have D: "analyzeWithOpenAI limited_then_unauthorized simulated_JSON_parse ''iVBORw0KGgo=''
     ''seo'' ''https://example.com'' (Some ''gpt-4o'') fresh =
     (Inl unauthorized_error, \<lparr>requests = replicate 2 ?r, sleeps = [2000]\<rparr>)"
    using T rl nrl d by blast
  have E: "analyzeWithOpenAI limited_twice_then_unauthorized simulated_JSON_parse
     ''iVBORw0KGgo='' ''seo'' ''https://example.com'' (Some ''gpt-4o'') fresh =
     (Inl unauthorized_error, \<lparr>requests = replicate 3 ?r, sleeps = [2000, 4000]\<rparr>)"
    using T rl nrl e by blast
  have N: "attempt_loop limited_twice_then_unauthorized simulated_JSON_parse ?r 3
     (Some rate_limit_error) \<lparr>requests = replicate 2 ?r, sleeps = [2000, 4000]\<rparr> =
     (Inl unauthorized_error, \<lparr>requests = replicate 3 ?r, sleeps = [2000, 4000]\<rparr>)"
  proof -
    have "attempt_loop limited_twice_then_unauthorized simulated_JSON_parse ?r 3
       (Some rate_limit_error) \<lparr>requests = [?r, ?r], sleeps = [2000, 4000]\<rparr> =
       (Inl unauthorized_error,
        \<lparr>requests = [?r, ?r], sleeps = [2000, 4000]\<rparr>
          \<lparr>requests := requests \<lparr>requests = [?r, ?r], sleeps = [2000, 4000]\<rparr> @ [?r]\<rparr>)"
      using T nrl e(3) three by blast
    then show ?thesis by (simp add: numeral_3_eq_3 numeral_2_eq_2)
  qed
  have R: "attempt_loop limited_always simulated_JSON_parse ?r 3
     (Some rate_limit_error) \<lparr>requests = replicate 2 ?r, sleeps = [2000, 4000]\<rparr> =
     attempt_loop limited_always simulated_JSON_parse ?r 4 (Some rate_limit_error)
       \<lparr>requests = replicate 3 ?r, sleeps = [2000, 4000, 8000]\<rparr>"
  proof -
    have "attempt_loop limited_always simulated_JSON_parse ?r 3
       (Some rate_limit_error) \<lparr>requests = [?r, ?r], sleeps = [2000, 4000]\<rparr> =
       attempt_loop limited_always simulated_JSON_parse ?r (3 + 1) (Some rate_limit_error)
         (\<lparr>requests = [?r, ?r], sleeps = [2000, 4000]\<rparr>
            \<lparr>requests := requests \<lparr>requests = [?r, ?r], sleeps = [2000, 4000]\<rparr> @ [?r],
             sleeps := sleeps \<lparr>requests = [?r, ?r], sleeps = [2000, 4000]\<rparr> @
                         [2 ^ 3 * 1000]\<rparr>)"
      using T rl r three by blast
    moreover have "replicate 2 ?r = [?r, ?r]" and "replicate 3 ?r = [?r, ?r, ?r]"
      by (simp_all add: numeral_2_eq_2 numeral_3_eq_3)
    ultimately show ?thesis by simp
  qed
  have C: "analyzeWithOpenAI limited_always simulated_JSON_parse ''iVBORw0KGgo='' ''seo''
     ''https://example.com'' (Some ''gpt-4o'') fresh =
     (Inl (Thrown Error (Some (''API failed after 3 attempts. Last error: '' @
                               ''429 Rate limit reached for requests''))),
      \<lparr>requests = replicate 3 ?r, sleeps = [2000, 4000, 8000]\<rparr>)"
    using T rl by (simp add: limited_always_def rate_limit_error_def)
  show ?thesis
    using A B D E N R C by blast
qed

lemma attempt_loop_sleeps_kept:
  "take (length (sleeps w)) (sleeps (snd (attempt_loop api P req attempt lastError w))) = sleeps w"
proof (induction api P req attempt lastError w rule: attempt_loop.induct)
  case (1 api P req attempt lastError w)
  show ?case
  proof (cases "attempt \<le> maxRetries")
    case False
    then show ?thesis by (simp add: attempt_loop_exhausted)
  next
    case le: True
    show ?thesis
    proof (cases "try_block api P w")
      case (Inr v)
      with le show ?thesis by (simp add: attempt_loop_success)
    next
      case (Inl e)
      show ?thesis
      proof (cases "is_rate_limit e")
        case False
        with le Inl show ?thesis by (simp add: attempt_loop_abort)
      next
        case True
        let ?res = "sleeps (snd (attempt_loop api P req attempt lastError w))"
        from "1.IH" [OF le Inl True] le Inl True
        have "take (Suc (length (sleeps w))) ?res = sleeps w @ [2 ^ attempt * 1000]"
          by (simp add: attempt_loop_retry)
        then have "take (length (sleeps w)) (take (Suc (length (sleeps w))) ?res) = sleeps w"
          by simp
        then show ?thesis by (simp add: min_def)
      qed
    qed
  qed
qed

lemma attempt_loop_sends:
  assumes "attempt \<le> maxRetries"
  shows "length (requests w) <
           length (requests (snd (attempt_loop api P req attempt lastError w)))"
proof (cases "try_block api P w")
  case (Inr v)
  with assms show ?thesis by (simp add: attempt_loop_success)
next
  case (Inl e)
  show ?thesis
  proof (cases "is_rate_limit e")
    case False
    with assms Inl show ?thesis by (simp add: attempt_loop_abort)
  next
    case True
    let ?w = "w\<lparr>requests := requests w @ [req], sleeps := sleeps w @ [2 ^ attempt * 1000]\<rparr>"
    have "length (requests ?w) \<le>
            length (requests (snd (attempt_loop api P req (attempt + 1) (Some e) ?w)))"
      by (rule attempt_loop_requests_mono)
    with assms Inl True show ?thesis by (simp add: attempt_loop_retry)
  qed
qed

section \<open>Parse failures\<close>

lemma analyzeWithGemini_parse_failure:
  assumes "api (length (requests w)) = Resolves t" and "P t = Inl e"
  shows "analyzeWithGemini api P shot aType url w =
           (Inl e, w\<lparr>requests := requests w @ [gemini_request shot aType url]\<rparr>)"
  using assms by (simp add: analyzeWithGemini_def)

lemma analyzeWithOpenAI_parse_failure_rethrown:
  assumes "api 0 = Resolves t" and "P t = Inl e" and "\<not> is_rate_limit e"
  shows "analyzeWithOpenAI api P shot aType url (Some m) fresh =
           (Inl e, \<lparr>requests = [chat_request shot aType url m], sleeps = []\<rparr>)"
proof -
  have "try_block api P fresh = Inl e"
    using assms by (simp add: try_block_def fresh_def)
  then show ?thesis
    using assms(3) by (rule first_error_not_rate_limit)
qed

text \<open>
  C4. In the native call a response that does not parse makes the invocation fail
  with the parser's error after its single request. In the chat-completion call the
  parser's error is caught by the retry loop: when its message contains \<open>429\<close> or
  \<open>rate limit\<close> the loop sleeps 2000 ms and sends a second request.
\<close>

theorem analyzeWithOpenAI_parse_failure_retried:
  assumes "api 0 = Resolves t" and "P t = Inl e" and "is_rate_limit e"
  shows "2 \<le> length (requests (snd (analyzeWithOpenAI api P shot aType url (Some m) fresh))) \<and>
         take 1 (sleeps (snd (analyzeWithOpenAI api P shot aType url (Some m) fresh))) = [2000]"
proof -
  let ?r = "chat_request shot aType url m"
  let ?w = "\<lparr>requests = [?r], sleeps = [2000]\<rparr>"
  have first: "try_block api P fresh = Inl e"
    using assms by (simp add: try_block_def fresh_def)
  have step: "analyzeWithOpenAI api P shot aType url (Some m) fresh =
                attempt_loop api P ?r 2 (Some e) ?w"
    using first assms(3)
    by (simp add: analyzeWithOpenAI_def attempt_loop_retry maxRetries_def fresh_def
        numeral_2_eq_2)
  have "length (requests ?w) < length (requests (snd (attempt_loop api P ?r 2 (Some e) ?w)))"
    by (rule attempt_loop_sends) (simp add: maxRetries_def)
  moreover have "take (length (sleeps ?w)) (sleeps (snd (attempt_loop api P ?r 2 (Some e) ?w)))
                   = sleeps ?w"
    by (rule attempt_loop_sleeps_kept)
  ultimately show ?thesis by (simp add: step)
qed

theorem analyzeWithOpenAI_parse_failure_retried_witness:
  "malformed_once 0 = Resolves trailing_text \<and>
   simulated_JSON_parse trailing_text = Inl trailing_text_error \<and>
   is_rate_limit trailing_text_error \<and>
   2 \<le> length (requests (snd (analyzeWithOpenAI malformed_once simulated_JSON_parse
                 ''iVBORw0KGgo='' ''seo'' ''https://example.com'' (Some ''gpt-4o'') fresh))) \<and>
   analyzeWithOpenAI malformed_once simulated_JSON_parse
     ''iVBORw0KGgo='' ''seo'' ''https://example.com'' (Some ''gpt-4o'') fresh =
     (Inr sample_response,
      \<lparr>requests = replicate 2 (chat_request ''iVBORw0KGgo='' ''seo'' ''https://example.com'' ''gpt-4o''),
       sleeps = [2000]\<rparr>)"
proof -
  have a: "malformed_once 0 = Resolves trailing_text"
    by (simp add: malformed_once_def)
  have b: "simulated_JSON_parse trailing_text = Inl trailing_text_error"
    by (simp add: simulated_JSON_parse_def trailing_text_def sample_text_def)
  have c: "is_rate_limit trailing_text_error"
    by (simp add: is_rate_limit_def trailing_text_error_def startsWith_def)
  have d: "try_block malformed_once simulated_JSON_parse fresh = Inl trailing_text_error"
    using a b by (simp add: try_block_def fresh_def)
  have e: "try_block malformed_once simulated_JSON_parse
             \<lparr>requests = [r], sleeps = [2000]\<rparr> = Inr sample_response" for r
    by (simp add: try_block_def malformed_once_def simulated_JSON_parse_def)
  have run: "analyzeWithOpenAI malformed_once simulated_JSON_parse
     ''iVBORw0KGgo='' ''seo'' ''https://example.com'' (Some ''gpt-4o'') fresh =
     (Inr sample_response,
      \<lparr>requests = replicate 2 (chat_request ''iVBORw0KGgo='' ''seo'' ''https://example.com'' ''gpt-4o''),
       sleeps = [2000]\<rparr>)"
    using c d e
    by (simp add: analyzeWithOpenAI_def fresh_def attempt_loop_retry attempt_loop_success
        maxRetries_def numeral_2_eq_2)
  show ?thesis
    using a b c run
      analyzeWithOpenAI_parse_failure_retried [where api = malformed_once
        and t = trailing_text and P = simulated_JSON_parse and e = trailing_text_error
        and shot = "''iVBORw0KGgo=''" and aType = "''seo''"
        and url = "''https://example.com''" and m = "''gpt-4o''", OF a b c]
    by simp
qed

section \<open>Properties of the result record\<close>

lemma get_field_defined:
  assumes "aiResult \<noteq> JNull" and "aiResult \<noteq> JUndefined"
  shows "get_field aiResult k = Inr (projr (get_field aiResult k))"
  using assms by (cases aiResult) simp_all

lemma get_field_Inr:
  assumes "get_field aiResult k = Inr x"
  shows "aiResult \<noteq> JNull \<and> aiResult \<noteq> JUndefined"
  using assms by (cases aiResult) simp_all

lemma auditResult_null_response:
  "auditResult_part_003 url date aType vp prov JNull shot free tracker =
     Inl (cannot_read ''null'' ''score'') \<and>
   auditResult_part_002 url date aType vp prov JNull tech perf acc mob seo cont conv shot =
     Inl (cannot_read ''null'' ''score'')"
  by (simp add: auditResult_part_003_def auditResult_part_002_def flattenedResult_reads_def)

lemma auditResult_part_003_built:
  assumes "aiResult \<noteq> JNull" and "aiResult \<noteq> JUndefined"
  shows "auditResult_part_003 url date aType vp prov aiResult shot free tracker =
     Inr [(''url'', JStr url),
          (''audit_date'', JStr date),
          (''analysis_type'', JStr aType),
          (''viewport'', JStr vp),
          (''ai_provider'', JStr prov),
          (''score'', js_or (projr (get_field aiResult ''score'')) (JNum 0)),
          (''summary'', js_or (projr (get_field aiResult ''summary''))
                          (JStr ''No summary available'')),
          (''color_palette'', js_or (projr (get_field aiResult ''color_palette'')) (JArr [])),
          (''design_flaws'', js_or (projr (get_field aiResult ''design_flaws'')) (JArr [])),
          (''positive_aspects'',
             js_or (projr (get_field aiResult ''positive_aspects'')) (JArr [])),
          (''recommendations'',
             js_or (projr (get_field aiResult ''recommendations'')) (JArr [])),
          (''screenshot_url'', JStr shot),
          (''free_tier_remaining'',
             if free then JNum (of_nat (getRemaining tracker)) else JNull)]"
  using assms by (cases aiResult) (simp_all add: auditResult_part_003_def)

lemma join_elements_array_or_falsy:
  "array_or_falsy v \<Longrightarrow> join_elements k (js_or v (JArr [])) = Inr (case v of JArr xs \<Rightarrow> xs | _ \<Rightarrow> [])"
  by (cases v) (simp_all add: js_or_def)


lemma lists_joinable_fields:
  assumes "lists_joinable aiResult"
  shows "array_or_falsy (projr (get_field aiResult ''color_palette''))"
    and "array_or_falsy (projr (get_field aiResult ''design_flaws''))"
    and "array_or_falsy (projr (get_field aiResult ''positive_aspects''))"
    and "array_or_falsy (projr (get_field aiResult ''recommendations''))"
  using assms by (auto simp: lists_joinable_def split: sum.splits)

lemma flattenedResult_reads_built:
  assumes "aiResult \<noteq> JNull" and "aiResult \<noteq> JUndefined" and "lists_joinable aiResult"
  shows "\<not> isl (flattenedResult_reads aiResult)"
  using lists_joinable_fields [OF assms(3)] assms(1,2)
  by (cases aiResult)
     (simp_all add: flattenedResult_reads_def join_elements_array_or_falsy)



lemma auditResult_part_002_string_in_list:
  "auditResult_part_002 ''https://example.com'' ''2025-12-10T16:45:00.000Z'' ''seo''
     ''desktop'' ''gemini'' string_in_list_response initial_technologies initial_performance
     initial_accessibility initial_mobile initial_seo initial_content initial_conversion
     ''https://api.apify.com/v2/shot.png'' =
   Inl (Thrown TypeError (Some ''(aiResult.color_palette || []).join is not a function''))"
  by (simp add: auditResult_part_002_def flattenedResult_reads_def
      string_in_list_response_def own_def js_or_def)

lemma auditResult_part_002_built:
  assumes "aiResult \<noteq> JNull" and "aiResult \<noteq> JUndefined" and "lists_joinable aiResult"
  shows "auditResult_part_002 url date aType vp prov aiResult tech perf acc mob seo cont conv shot =
     Inr [(''url'', JStr url),
          (''audit_date'', JStr date),
          (''analysis_type'', JStr aType),
          (''viewport'', JStr vp),
          (''ai_provider'', JStr prov),
          (''overall_score'', js_or (projr (get_field aiResult ''score'')) (JNum 0)),
          (''ai_summary'', js_or (projr (get_field aiResult ''summary''))
                             (JStr ''No summary available'')),
          (''color_palette'', js_or (projr (get_field aiResult ''color_palette'')) (JArr [])),
          (''design_flaws'', js_or (projr (get_field aiResult ''design_flaws'')) (JArr [])),
          (''positive_aspects'',
             js_or (projr (get_field aiResult ''positive_aspects'')) (JArr [])),
          (''ai_recommendations'',
             js_or (projr (get_field aiResult ''recommendations'')) (JArr [])),
          (''technology_stack'', JObj tech),
          (''performance_metrics'', JObj perf),
          (''accessibility_analysis'', JObj acc),
          (''mobile_analysis'', JObj mob),
          (''seo_analysis'', JObj seo),
          (''content_analysis'', JObj cont),
          (''conversion_analysis'', JObj conv),
          (''scores'',
             JObj [(''overall_ux'', js_or (projr (get_field aiResult ''score'')) (JNum 0)),
                   (''performance'', own perf ''performance_score''),
                   (''accessibility'', own acc ''accessibility_score''),
                   (''mobile'', own mob ''mobile_score''),
                   (''seo'', own seo ''seo_score''),
                   (''content'', own cont ''content_score''),
                   (''conversion'', own conv ''conversion_score'')]),
          (''screenshot_url'', JStr shot)]"
proof -
  obtain flattened where "flattenedResult_reads aiResult = Inr flattened"
    using flattenedResult_reads_built [OF assms] by (cases "flattenedResult_reads aiResult") auto
  then show ?thesis
    using assms(1,2) by (cases aiResult) (simp_all add: auditResult_part_002_def)
qed

lemma part_003_fields:
  assumes "aiResult \<noteq> JNull" and "aiResult \<noteq> JUndefined"
  shows "field_of (auditResult_part_003 url date aType vp prov aiResult shot free tracker) ''score''
           = Some (js_or (projr (get_field aiResult ''score'')) (JNum 0))"
    and "field_of (auditResult_part_003 url date aType vp prov aiResult shot free tracker) ''summary''
           = Some (js_or (projr (get_field aiResult ''summary'')) (JStr ''No summary available''))"
    and "field_of (auditResult_part_003 url date aType vp prov aiResult shot free tracker)
           ''color_palette''
           = Some (js_or (projr (get_field aiResult ''color_palette'')) (JArr []))"
    and "field_of (auditResult_part_003 url date aType vp prov aiResult shot free tracker)
           ''design_flaws''
           = Some (js_or (projr (get_field aiResult ''design_flaws'')) (JArr []))"
    and "field_of (auditResult_part_003 url date aType vp prov aiResult shot free tracker)
           ''positive_aspects''
           = Some (js_or (projr (get_field aiResult ''positive_aspects'')) (JArr []))"
    and "field_of (auditResult_part_003 url date aType vp prov aiResult shot free tracker)
           ''recommendations''
           = Some (js_or (projr (get_field aiResult ''recommendations'')) (JArr []))"
  by (simp_all add: auditResult_part_003_built [OF assms] field_of_def)

lemma part_002_fields:
  assumes "aiResult \<noteq> JNull" and "aiResult \<noteq> JUndefined" and "lists_joinable aiResult"
  shows "field_of (auditResult_part_002 url date aType vp prov aiResult tech perf acc mob seo
                     cont conv shot) ''overall_score''
           = Some (js_or (projr (get_field aiResult ''score'')) (JNum 0))"
    and "field_of (auditResult_part_002 url date aType vp prov aiResult tech perf acc mob seo
                     cont conv shot) ''ai_summary''
           = Some (js_or (projr (get_field aiResult ''summary'')) (JStr ''No summary available''))"
    and "field_of (auditResult_part_002 url date aType vp prov aiResult tech perf acc mob seo
                     cont conv shot) ''color_palette''
           = Some (js_or (projr (get_field aiResult ''color_palette'')) (JArr []))"
    and "field_of (auditResult_part_002 url date aType vp prov aiResult tech perf acc mob seo
                     cont conv shot) ''design_flaws''
           = Some (js_or (projr (get_field aiResult ''design_flaws'')) (JArr []))"
    and "field_of (auditResult_part_002 url date aType vp prov aiResult tech perf acc mob seo
                     cont conv shot) ''positive_aspects''
           = Some (js_or (projr (get_field aiResult ''positive_aspects'')) (JArr []))"
    and "field_of (auditResult_part_002 url date aType vp prov aiResult tech perf acc mob seo
                     cont conv shot) ''ai_recommendations''
           = Some (js_or (projr (get_field aiResult ''recommendations'')) (JArr []))"
  by (simp_all add: auditResult_part_002_built [OF assms] field_of_def)

text \<open>
  C5. For every parsed response other than \<open>null\<close>, the record built by the handler
  that keeps the provider's key names holds all six analysis fields. A field that the
  response does not have gets its default: 0 for the score, the placeholder for the
  summary, the empty array for the four lists. A field whose value is truthy is kept
  as it is. So a response without \<open>color_palette\<close>, \<open>design_flaws\<close> and
  \<open>recommendations\<close> gets the empty array for these three, and its other three values
  are kept when they are truthy.
\<close>

theorem auditResult_defaults:
  assumes "aiResult \<noteq> JNull" and "aiResult \<noteq> JUndefined"
  shows "let R = auditResult_part_003 url date aType vp prov aiResult shot free tracker in
    (field_of R ''score'' \<noteq> None \<and> field_of R ''summary'' \<noteq> None \<and>
     field_of R ''color_palette'' \<noteq> None \<and> field_of R ''design_flaws'' \<noteq> None \<and>
     field_of R ''positive_aspects'' \<noteq> None \<and> field_of R ''recommendations'' \<noteq> None) \<and>
    (get_field aiResult ''score'' = Inr JUndefined \<longrightarrow> field_of R ''score'' = Some (JNum 0)) \<and>
    (get_field aiResult ''summary'' = Inr JUndefined \<longrightarrow>
       field_of R ''summary'' = Some (JStr ''No summary available'')) \<and>
    (get_field aiResult ''color_palette'' = Inr JUndefined \<longrightarrow>
       field_of R ''color_palette'' = Some (JArr [])) \<and>
    (get_field aiResult ''design_flaws'' = Inr JUndefined \<longrightarrow>
       field_of R ''design_flaws'' = Some (JArr [])) \<and>
    (get_field aiResult ''positive_aspects'' = Inr JUndefined \<longrightarrow>
       field_of R ''positive_aspects'' = Some (JArr [])) \<and>
    (get_field aiResult ''recommendations'' = Inr JUndefined \<longrightarrow>
       field_of R ''recommendations'' = Some (JArr [])) \<and>
    (get_field aiResult ''score'' = Inr x1 \<and> truthy x1 \<longrightarrow> field_of R ''score'' = Some x1) \<and>
    (get_field aiResult ''summary'' = Inr x2 \<and> truthy x2 \<longrightarrow>
       field_of R ''summary'' = Some x2) \<and>
    (get_field aiResult ''color_palette'' = Inr x3 \<and> truthy x3 \<longrightarrow>
       field_of R ''color_palette'' = Some x3) \<and>
    (get_field aiResult ''design_flaws'' = Inr x4 \<and> truthy x4 \<longrightarrow>
       field_of R ''design_flaws'' = Some x4) \<and>
    (get_field aiResult ''positive_aspects'' = Inr x5 \<and> truthy x5 \<longrightarrow>
       field_of R ''positive_aspects'' = Some x5) \<and>
    (get_field aiResult ''recommendations'' = Inr x6 \<and> truthy x6 \<longrightarrow>
       field_of R ''recommendations'' = Some x6)"
  by (simp add: Let_def part_003_fields [OF assms] js_or_def)

theorem auditResult_defaults_witness:
  "partial_response \<noteq> JNull \<and> partial_response \<noteq> JUndefined \<and>
   get_field partial_response ''color_palette'' = Inr JUndefined \<and>
   get_field partial_response ''design_flaws'' = Inr JUndefined \<and>
   get_field partial_response ''recommendations'' = Inr JUndefined \<and>
   (let R = auditResult_part_003 ''https://example.com'' ''2025-12-10T16:45:00.000Z'' ''seo''
              ''desktop'' ''gemini'' partial_response ''https://api.apify.com/v2/shot.png''
              True \<lparr>count = 2, limit = 5\<rparr> in
    field_of R ''color_palette'' = Some (JArr []) \<and>
    field_of R ''design_flaws'' = Some (JArr []) \<and>
    field_of R ''recommendations'' = Some (JArr []) \<and>
    field_of R ''score'' = Some (JNum 8) \<and>
    field_of R ''summary'' = Some (JStr ''Good structure'') \<and>
    field_of R ''positive_aspects'' = Some (JArr [JStr ''Clear headings'']))"
proof -
  have a: "partial_response \<noteq> JNull" and b: "partial_response \<noteq> JUndefined"
    by (simp_all add: partial_response_def)
  have c: "get_field partial_response ''color_palette'' = Inr JUndefined"
    "get_field partial_response ''design_flaws'' = Inr JUndefined"
    "get_field partial_response ''recommendations'' = Inr JUndefined"
    "get_field partial_response ''score'' = Inr (JNum 8)"
    "get_field partial_response ''summary'' = Inr (JStr ''Good structure'')"
    "get_field partial_response ''positive_aspects'' = Inr (JArr [JStr ''Clear headings''])"
    by (simp_all add: partial_response_def own_def)
  show ?thesis
    using a b c
      auditResult_defaults [OF a b, where url = "''https://example.com''"
        and date = "''2025-12-10T16:45:00.000Z''" and aType = "''seo''"
        and vp = "''desktop''" and prov = "''gemini''"
        and shot = "''https://api.apify.com/v2/shot.png''" and free = True
        and tracker = "\<lparr>count = 2, limit = 5\<rparr>"
        and ?x1.0 = "JNum 8" and ?x2.0 = "JStr ''Good structure''"
        and ?x5.0 = "JArr [JStr ''Clear headings'']"]
    by (simp add: Let_def)
qed

theorem auditResult_blank_summary_replaced:
  "get_field blank_summary_response ''color_palette'' = Inr JUndefined \<and>
   get_field blank_summary_response ''design_flaws'' = Inr JUndefined \<and>
   get_field blank_summary_response ''recommendations'' = Inr JUndefined \<and>
   get_field blank_summary_response ''summary'' = Inr (JStr []) \<and>
   field_of (auditResult_part_003 ''https://example.com'' ''2025-12-10T16:45:00.000Z'' ''seo''
               ''desktop'' ''gemini'' blank_summary_response
               ''https://api.apify.com/v2/shot.png'' True \<lparr>count = 2, limit = 5\<rparr>)
     ''summary'' = Some (JStr ''No summary available'')"
  by (simp add: blank_summary_response_def own_def auditResult_part_003_def field_of_def
      js_or_def)

text \<open>
  C6. When the response has all six keys with valid values (a score from 1 to 10, a
  non-empty summary, and four arrays of strings), both request handlers store the six
  values unchanged; the second one stores the score, the summary and the
  recommendations under \<open>overall_score\<close>, \<open>ai_summary\<close> and \<open>ai_recommendations\<close>.
\<close>

theorem auditResult_round_trip:
  assumes "get_field aiResult ''score'' = Inr (JNum n)" and "1 \<le> n" and "n \<le> 10"
    and "get_field aiResult ''summary'' = Inr (JStr s)" and "s \<noteq> []"
    and "get_field aiResult ''color_palette'' = Inr (JArr (map JStr palette))"
    and "get_field aiResult ''design_flaws'' = Inr (JArr (map JStr flaws))"
    and "get_field aiResult ''positive_aspects'' = Inr (JArr (map JStr positives))"
    and "get_field aiResult ''recommendations'' = Inr (JArr (map JStr recs))"
  shows "let R3 = auditResult_part_003 url date aType vp prov aiResult shot free tracker;
             R2 = auditResult_part_002 url date aType vp prov aiResult tech perf acc mob seo
                    cont conv shot in
    field_of R3 ''score'' = Some (JNum n) \<and>
    field_of R3 ''summary'' = Some (JStr s) \<and>
    field_of R3 ''color_palette'' = Some (JArr (map JStr palette)) \<and>
    field_of R3 ''design_flaws'' = Some (JArr (map JStr flaws)) \<and>
    field_of R3 ''positive_aspects'' = Some (JArr (map JStr positives)) \<and>
    field_of R3 ''recommendations'' = Some (JArr (map JStr recs)) \<and>
    field_of R2 ''overall_score'' = Some (JNum n) \<and>
    field_of R2 ''ai_summary'' = Some (JStr s) \<and>
    field_of R2 ''color_palette'' = Some (JArr (map JStr palette)) \<and>
    field_of R2 ''design_flaws'' = Some (JArr (map JStr flaws)) \<and>
    field_of R2 ''positive_aspects'' = Some (JArr (map JStr positives)) \<and>
    field_of R2 ''ai_recommendations'' = Some (JArr (map JStr recs))"
proof -
  have nn: "aiResult \<noteq> JNull" "aiResult \<noteq> JUndefined"
    using get_field_Inr [OF assms(1)] by simp_all
  have lj: "lists_joinable aiResult"
    using assms(6-9) by (simp add: lists_joinable_def)
  have "n \<noteq> 0"
    using assms(2) by auto
  then show ?thesis
    using assms
    by (simp add: Let_def part_003_fields [OF nn] part_002_fields [OF nn lj] js_or_def)
qed

theorem auditResult_round_trip_witness:
  "let R3 = auditResult_part_003 ''https://example.com'' ''2025-12-10T16:45:00.000Z'' ''seo''
              ''desktop'' ''gemini'' sample_response ''https://api.apify.com/v2/shot.png''
              False \<lparr>count = 0, limit = 5\<rparr>;
       R2 = auditResult_part_002 ''https://example.com'' ''2025-12-10T16:45:00.000Z'' ''seo''
              ''desktop'' ''gemini'' sample_response initial_technologies
              initial_performance initial_accessibility initial_mobile initial_seo
              initial_content initial_conversion ''https://api.apify.com/v2/shot.png'' in
   field_of R3 ''score'' = Some (JNum 8) \<and>
   field_of R3 ''summary'' = Some (JStr ''Good structure'') \<and>
   field_of R3 ''color_palette'' = Some (JArr [JStr ''#FFFFFF'']) \<and>
   field_of R3 ''design_flaws'' = Some (JArr []) \<and>
   field_of R3 ''positive_aspects'' = Some (JArr [JStr ''Clear headings'']) \<and>
   field_of R3 ''recommendations'' = Some (JArr [JStr ''Add meta description'']) \<and>
   field_of R2 ''overall_score'' = Some (JNum 8) \<and>
   field_of R2 ''ai_summary'' = Some (JStr ''Good structure'') \<and>
   field_of R2 ''color_palette'' = Some (JArr [JStr ''#FFFFFF'']) \<and>
   field_of R2 ''design_flaws'' = Some (JArr []) \<and>
   field_of R2 ''positive_aspects'' = Some (JArr [JStr ''Clear headings'']) \<and>
   field_of R2 ''ai_recommendations'' = Some (JArr [JStr ''Add meta description''])"
proof -
  have a: "get_field sample_response ''score'' = Inr (JNum 8)"
    and b: "(1::rat) \<le> 8" and c: "(8::rat) \<le> 10"
    and d: "get_field sample_response ''summary'' = Inr (JStr ''Good structure'')"
    and e: "''Good structure'' \<noteq> []"
    and f: "get_field sample_response ''color_palette'' = Inr (JArr (map JStr [''#FFFFFF'']))"
    and g: "get_field sample_response ''design_flaws'' = Inr (JArr (map JStr []))"
    and h: "get_field sample_response ''positive_aspects'' =
              Inr (JArr (map JStr [''Clear headings'']))"
    and i: "get_field sample_response ''recommendations'' =
              Inr (JArr (map JStr [''Add meta description'']))"
    by (simp_all add: sample_response_def own_def)
  show ?thesis
    using auditResult_round_trip [OF a b c d e f g h i,
        where url = "''https://example.com''" and date = "''2025-12-10T16:45:00.000Z''"
        and aType = "''seo''" and vp = "''desktop''" and prov = "''gemini''"
        and shot = "''https://api.apify.com/v2/shot.png''" and free = False
        and tracker = "\<lparr>count = 0, limit = 5\<rparr>" and tech = initial_technologies
        and perf = initial_performance and acc = initial_accessibility
        and mob = initial_mobile and seo = initial_seo and cont = initial_content
        and conv = initial_conversion]
    by (simp add: Let_def)
qed







end
